theory Spec2Isabelle
  imports Complex_Main "HOL-Library.AList" "HOL-Library.Char_ord" "HOL-Library.List_Lexorder"
    "HOL-Library.Product_Lexorder" "HOL-Library.Multiset"
begin

section \<open>Python values used by the corpus builder\<close>

text \<open>
  The builder of \<^verbatim>\<open>efi_corpus/builders/mediacloud.py\<close> is embedded function by function.
  A Python \<^verbatim>\<open>str\<close> is a \<^typ>\<open>string\<close> with one \<^typ>\<open>char\<close> per code point (code points
  below 256), so \<^const>\<open>length\<close> is Python's \<^verbatim>\<open>len\<close>. Exceptions are values of
  \<open>error\<close>; a function that can raise returns \<open>error + 'a\<close>. A dict whose order
  matters is an association list with distinct keys.
\<close>

datatype error =
    KeyError string
  | TypeError string
  | ValueError string
  | PyException string

fun str_of_error :: "error \<Rightarrow> string" where
  "str_of_error (KeyError k) = [CHR 0x27] @ k @ [CHR 0x27]"
| "str_of_error (TypeError s) = s"
| "str_of_error (ValueError s) = s"
| "str_of_error (PyException s) = s"

text \<open>Values stored in the open \<^verbatim>\<open>extra\<close> mappings.\<close>

datatype pyval =
    PNone
  | PBool bool
  | PInt int
  | PFloat rat
  | PStr string
  | PStrList "string list"
  | PStrDict "(string \<times> string list) list"
  | PDate int int int

fun pv_truthy :: "pyval \<Rightarrow> bool" where
  "pv_truthy PNone = False"
| "pv_truthy (PBool b) = b"
| "pv_truthy (PInt i) = (i \<noteq> 0)"
| "pv_truthy (PFloat r) = (r \<noteq> 0)"
| "pv_truthy (PStr s) = (s \<noteq> [])"
| "pv_truthy (PStrList xs) = (xs \<noteq> [])"
| "pv_truthy (PStrDict d) = (d \<noteq> [])"
| "pv_truthy (PDate y m d) = True"

type_synonym pydict = "(string \<times> pyval) list"

text \<open>\<^verbatim>\<open>d.get(k)\<close>: a missing key reads as \<^verbatim>\<open>None\<close>.\<close>

definition dict_get :: "pydict \<Rightarrow> string \<Rightarrow> pyval" where
  "dict_get d k = (case map_of d k of None \<Rightarrow> PNone | Some v \<Rightarrow> v)"

text \<open>\<^verbatim>\<open>d.get(k, default)\<close>.\<close>

definition dict_get_default :: "pydict \<Rightarrow> string \<Rightarrow> pyval \<Rightarrow> pyval" where
  "dict_get_default d k dflt = (case map_of d k of None \<Rightarrow> dflt | Some v \<Rightarrow> v)"

text \<open>\<^verbatim>\<open>{**a, **b}\<close>: the entries of \<open>b\<close> are stored into \<open>a\<close> in order.\<close>

definition dict_merge :: "('k \<times> 'v) list \<Rightarrow> ('k \<times> 'v) list \<Rightarrow> ('k \<times> 'v) list" where
  "dict_merge a b = fold (\<lambda>(k, v) d. AList.update k v d) b a"

text \<open>Truthiness of an optional string and of an optional list, and Python's \<^verbatim>\<open>or\<close>.\<close>

fun str_truthy :: "string option \<Rightarrow> bool" where
  "str_truthy None = False"
| "str_truthy (Some s) = (s \<noteq> [])"

definition str_or :: "string option \<Rightarrow> string option \<Rightarrow> string option" where
  "str_or a b = (if str_truthy a then a else b)"

fun list_truthy :: "'a list option \<Rightarrow> bool" where
  "list_truthy None = False"
| "list_truthy (Some xs) = (xs \<noteq> [])"

definition opt_list :: "'a list option \<Rightarrow> 'a list" where
  "opt_list a = (case a of None \<Rightarrow> [] | Some xs \<Rightarrow> xs)"

definition pv_or :: "pyval \<Rightarrow> pyval \<Rightarrow> pyval" where
  "pv_or a b = (if pv_truthy a then a else b)"

text \<open>\<^verbatim>\<open>sub in s\<close> on strings.\<close>

fun py_in :: "string \<Rightarrow> string \<Rightarrow> bool" where
  "py_in sub [] = (sub = [])"
| "py_in sub (c # cs) = (take (length sub) (c # cs) = sub \<or> py_in sub cs)"

section \<open>Data model\<close>

record builder_params =
  bp_date_from :: string
  bp_date_to :: string
  bp_keywords :: "string list"
  bp_extra :: "pydict option"

text \<open>\<^verbatim>\<open>(params.extra or {})\<close>.\<close>

definition extra_or_empty :: "builder_params \<Rightarrow> pydict" where
  "extra_or_empty p = (case bp_extra p of None \<Rightarrow> [] | Some e \<Rightarrow> e)"

record discovery_item =
  d_url :: string
  d_canonical_url :: string
  d_title :: "string option"
  d_published_at :: "string option"
  d_language :: "string option"
  d_authors :: "string list option"
  d_extra :: "pydict option"

text \<open>The dict returned by the text extractor; a missing key and \<^verbatim>\<open>None\<close> both read as \<open>None\<close>.\<close>

record parsed =
  p_text :: "string option"
  p_title :: "string option"
  p_published_at :: "string option"
  p_language :: "string option"
  p_authors :: "string list option"

record doc_meta =
  m_doc_id :: string
  m_uri :: string
  m_title :: "string option"
  m_published_at :: "string option"
  m_language :: "string option"
  m_authors :: "string list"
  m_source :: string
  m_keywords :: "string list"
  m_extra :: pydict

type_synonym fetch_meta = "(string \<times> string) list"

record document =
  doc_stable_id :: string
  doc_meta :: doc_meta
  doc_text :: string
  doc_raw_bytes :: string
  doc_raw_ext :: string
  doc_fetch_info :: fetch_meta

record index_record =
  ix_id :: string
  ix_url :: string
  ix_published_at :: "string option"
  ix_title :: "string option"
  ix_language :: "string option"
  ix_keywords :: "string list"
  ix_collection_id :: pyval
  ix_collection :: pyval

text \<open>
  One entry of the manifest history. The last three keys are written by concurrent mode
  only; \<open>None\<close> is an absent key.
\<close>

record run_record =
  h_discovered :: int
  h_added :: int
  h_skipped_quality :: int
  h_skipped_text_extraction :: int
  h_skipped_duplicate :: int
  h_failed :: int
  h_date_from :: string
  h_date_to :: string
  h_keywords :: "string list"
  h_processing_mode :: "string option"
  h_concurrent_requests :: "pyval option"
  h_download_delay :: "pyval option"

record manifest =
  mf_name :: string
  mf_source :: string
  mf_params :: builder_params
  mf_history :: "run_record list"
  mf_doc_count :: "int option"

text \<open>
  Modelled from the spec: the corpus store (\<^verbatim>\<open>self.corpus\<close>, defined in the base builder,
  which is not among the sources). \<^verbatim>\<open>writeDocument\<close> and \<^verbatim>\<open>appendIndex\<close> are recorded as
  logs of their calls, \<^verbatim>\<open>hasDoc(id)\<close> holds when a document with that id was written,
  \<^verbatim>\<open>saveManifest\<close> keeps the last manifest saved.
\<close>

record corpus =
  written :: "document list"
  index_log :: "index_record list"
  saved_manifest :: "manifest option"

definition has_doc :: "corpus \<Rightarrow> string \<Rightarrow> bool" where
  "has_doc c s = (s \<in> set (map doc_stable_id (written c)))"

definition write_document :: "document \<Rightarrow> corpus \<Rightarrow> corpus" where
  "write_document d c = c\<lparr>written := written c @ [d]\<rparr>"

definition append_index :: "index_record \<Rightarrow> corpus \<Rightarrow> corpus" where
  "append_index r c = c\<lparr>index_log := index_log c @ [r]\<rparr>"

definition save_manifest :: "manifest \<Rightarrow> corpus \<Rightarrow> corpus" where
  "save_manifest m c = c\<lparr>saved_manifest := Some m\<rparr>"

definition get_document_count :: "corpus \<Rightarrow> int" where
  "get_document_count c = int (card (set (map doc_stable_id (written c))))"

text \<open>
  The external collaborators of the builder: the fetcher, the blob file it points to,
  the zstd decompressor and the text extractor. Each may raise.
\<close>

record env =
  fetcher_get :: "string \<Rightarrow> string \<Rightarrow> bool \<Rightarrow> error + (string \<times> string \<times> fetch_meta)"
  read_blob :: "string \<Rightarrow> error + string"
  zstd_decompress :: "string \<Rightarrow> string option"
  extract_text :: "string \<Rightarrow> string \<Rightarrow> string \<Rightarrow> error + parsed"

section \<open>Fetching and parsing\<close>

definition fetch_raw :: "env \<Rightarrow> string \<Rightarrow> string \<Rightarrow> bool \<Rightarrow> error + (string \<times> fetch_meta \<times> string)" where
  "fetch_raw e url stable_id force_refresh =
     (case fetcher_get e url url force_refresh of
        Inl err \<Rightarrow> Inl err
      | Inr (blob_id, blob_path, fetch_meta) \<Rightarrow>
          (case read_blob e blob_path of
             Inl err \<Rightarrow> Inl err
           | Inr cbytes \<Rightarrow>
               let raw_bytes = (case zstd_decompress e cbytes of None \<Rightarrow> cbytes | Some r \<Rightarrow> r);
                   mime_type = (case map_of fetch_meta ''mime'' of None \<Rightarrow> [] | Some m \<Rightarrow> m);
                   raw_ext = (if py_in ''html'' mime_type then ''html''
                              else if py_in ''pdf'' mime_type then ''pdf''
                              else ''bin'')
               in Inr (raw_bytes, fetch_meta, raw_ext)))"

definition parse_text :: "env \<Rightarrow> string \<Rightarrow> string \<Rightarrow> string \<Rightarrow> error + parsed" where
  "parse_text e raw_bytes raw_ext url = extract_text e raw_bytes raw_ext url"

section \<open>Sequential processing\<close>

record seq_state =
  s_added :: int
  s_failed_urls :: "(string \<times> string) list"
  s_skipped_quality :: int
  s_skipped_text_extraction :: int
  s_corpus :: corpus

text \<open>The metadata merge of lines 503 to 508: extractor values against discovery values.\<close>

definition merge_title :: "parsed \<Rightarrow> discovery_item option \<Rightarrow> string option" where
  "merge_title p di = str_or (p_title p) (case di of None \<Rightarrow> None | Some d \<Rightarrow> d_title d)"

definition merge_published_at :: "parsed \<Rightarrow> discovery_item option \<Rightarrow> string option" where
  "merge_published_at p di =
     str_or (case di of None \<Rightarrow> None | Some d \<Rightarrow> d_published_at d) (p_published_at p)"

definition merge_language :: "parsed \<Rightarrow> discovery_item option \<Rightarrow> string option" where
  "merge_language p di = str_or (p_language p) (case di of None \<Rightarrow> None | Some d \<Rightarrow> d_language d)"

definition merge_authors :: "parsed \<Rightarrow> discovery_item option \<Rightarrow> string list" where
  "merge_authors p di =
     (if list_truthy (p_authors p) then opt_list (p_authors p)
      else (case di of
              None \<Rightarrow> []
            | Some d \<Rightarrow> (if list_truthy (d_authors d) then opt_list (d_authors d) else [])))"

definition build_meta ::
  "builder_params \<Rightarrow> manifest \<Rightarrow> (string \<times> discovery_item) list \<Rightarrow> string \<Rightarrow> string \<Rightarrow> parsed \<Rightarrow> doc_meta" where
  "build_meta params mf discovered_by_url url stable_id p =
     (let discovered_item = map_of discovered_by_url url;
          per_item_extra = (case discovered_item of
                              None \<Rightarrow> []
                            | Some d \<Rightarrow> (case d_extra d of None \<Rightarrow> [] | Some x \<Rightarrow> x));
          merged_extra = dict_merge (extra_or_empty params) per_item_extra
      in \<lparr>m_doc_id = stable_id,
          m_uri = url,
          m_title = merge_title p discovered_item,
          m_published_at = merge_published_at p discovered_item,
          m_language = merge_language p discovered_item,
          m_authors = merge_authors p discovered_item,
          m_source = mf_source mf,
          m_keywords = bp_keywords params,
          m_extra = merged_extra\<rparr>)"

definition build_index :: "builder_params \<Rightarrow> doc_meta \<Rightarrow> index_record" where
  "build_index params meta =
     \<lparr>ix_id = m_doc_id meta,
      ix_url = m_uri meta,
      ix_published_at = m_published_at meta,
      ix_title = m_title meta,
      ix_language = m_language meta,
      ix_keywords = bp_keywords params,
      ix_collection_id = dict_get (m_extra meta) ''collection_id'',
      ix_collection = pv_or (dict_get (m_extra meta) ''collection'')
                            (dict_get (m_extra meta) ''collection_name'')\<rparr>"

text \<open>One iteration of the loop of \<^verbatim>\<open>_process_sequential\<close>, with its \<^verbatim>\<open>try/except\<close>.\<close>

definition process_item ::
  "env \<Rightarrow> builder_params \<Rightarrow> manifest \<Rightarrow> (string \<times> discovery_item) list \<Rightarrow> bool
     \<Rightarrow> string \<times> string \<Rightarrow> seq_state \<Rightarrow> seq_state" where
  "process_item e params mf discovered_by_url force_refresh us st =
     (case us of (url, stable_id) \<Rightarrow>
        (case fetch_raw e url stable_id force_refresh of
           Inl err \<Rightarrow> st\<lparr>s_failed_urls := s_failed_urls st @ [(url, str_of_error err)]\<rparr>
         | Inr (raw_bytes, fetch_meta, raw_ext) \<Rightarrow>
             (case parse_text e raw_bytes raw_ext url of
                Inl err \<Rightarrow> st\<lparr>s_failed_urls := s_failed_urls st @ [(url, str_of_error err)]\<rparr>
              | Inr p \<Rightarrow>
                  let text = (if str_truthy (p_text p) then opt_list (p_text p) else [])
                  in if text = [] then
                       st\<lparr>s_skipped_text_extraction := s_skipped_text_extraction st + 1\<rparr>
                     else if length text < 400 then
                       st\<lparr>s_skipped_quality := s_skipped_quality st + 1\<rparr>
                     else
                       let meta = build_meta params mf discovered_by_url url stable_id p;
                           doc = \<lparr>doc_stable_id = stable_id, doc_meta = meta, doc_text = text,
                                  doc_raw_bytes = raw_bytes, doc_raw_ext = raw_ext,
                                  doc_fetch_info = fetch_meta\<rparr>;
                           c1 = write_document doc (s_corpus st);
                           c2 = append_index (build_index params meta) c1
                       in st\<lparr>s_corpus := c2, s_added := s_added st + 1\<rparr>)))"

record run_result =
  r_discovered :: int
  r_added :: int
  r_skipped_quality :: int
  r_skipped_text_extraction :: int
  r_skipped_duplicate :: int
  r_failed :: int
  r_total_docs :: int
  r_failed_details :: "(string \<times> string) list"

definition process_sequential ::
  "env \<Rightarrow> (string \<times> string) list \<Rightarrow> (string \<times> discovery_item) list \<Rightarrow> builder_params
     \<Rightarrow> manifest \<Rightarrow> bool \<Rightarrow> corpus \<Rightarrow> run_result \<times> manifest \<times> corpus" where
  "process_sequential e frontier discovered_by_url params mf force_refresh c =
     (let skipped_duplicate = int (length discovered_by_url) - int (length frontier);
          st0 = \<lparr>s_added = 0, s_failed_urls = [], s_skipped_quality = 0,
                 s_skipped_text_extraction = 0, s_corpus = c\<rparr>;
          st = fold (process_item e params mf discovered_by_url force_refresh) frontier st0;
          mf1 = mf\<lparr>mf_history := mf_history mf @
                   [\<lparr>h_discovered = int (length discovered_by_url),
                     h_added = s_added st,
                     h_skipped_quality = s_skipped_quality st,
                     h_skipped_text_extraction = s_skipped_text_extraction st,
                     h_skipped_duplicate = skipped_duplicate,
                     h_failed = int (length (s_failed_urls st)),
                     h_date_from = bp_date_from params,
                     h_date_to = bp_date_to params,
                     h_keywords = bp_keywords params,
                     h_processing_mode = None,
                     h_concurrent_requests = None,
                     h_download_delay = None\<rparr>],
                 mf_doc_count := Some ((case mf_doc_count mf of None \<Rightarrow> 0 | Some n \<Rightarrow> n) + s_added st)\<rparr>;
          c1 = save_manifest mf1 (s_corpus st)
      in (\<lparr>r_discovered = int (length discovered_by_url),
           r_added = s_added st,
           r_skipped_quality = s_skipped_quality st,
           r_skipped_text_extraction = s_skipped_text_extraction st,
           r_skipped_duplicate = skipped_duplicate,
           r_failed = int (length (s_failed_urls st)),
           r_total_docs = get_document_count c1,
           r_failed_details = s_failed_urls st\<rparr>, mf1, c1))"


section \<open>Canonical URLs, stable ids and the frontier\<close>

text \<open>
  \<^verbatim>\<open>canonicalize\<close> (lines 408 to 421 of \<^verbatim>\<open>run\<close>) calls four functions of Python's
  \<^verbatim>\<open>urllib.parse\<close>, which are not part of the repository: they are the fields of
  \<open>urllib\<close>. \<open>pr_hostname\<close> is the \<^verbatim>\<open>hostname\<close> property of the parse result.
\<close>

record parse_result =
  pr_scheme :: string
  pr_netloc :: string
  pr_path :: string
  pr_params :: string
  pr_query :: string
  pr_fragment :: string
  pr_hostname :: "string option"

record urllib =
  urlparse :: "string \<Rightarrow> error + parse_result"
  parse_qsl :: "string \<Rightarrow> (string \<times> string) list"
  urlencode :: "(string \<times> string) list \<Rightarrow> string"
  urlunparse :: "string \<times> string \<times> string \<times> string \<times> string \<times> string \<Rightarrow> string"

definition is_space :: "char \<Rightarrow> bool" where
  "is_space c = ((of_char c :: nat) \<in> {9, 10, 11, 12, 13, 28, 29, 30, 31, 32, 133, 160})"

text \<open>\<^verbatim>\<open>str.strip()\<close>.\<close>

definition py_strip :: "string \<Rightarrow> string" where
  "py_strip s = rev (dropWhile is_space (rev (dropWhile is_space s)))"

text \<open>\<^verbatim>\<open>str.lower()\<close> on code points below 256.\<close>

definition lower_char :: "char \<Rightarrow> char" where
  "lower_char c =
     (let n = (of_char c :: nat)
      in if (65 \<le> n \<and> n \<le> 90) \<or> (192 \<le> n \<and> n \<le> 222 \<and> n \<noteq> 215)
         then char_of (n + 32) else c)"

definition py_lower :: "string \<Rightarrow> string" where
  "py_lower s = map lower_char s"

definition TRACKERS :: "string list" where
  "TRACKERS = [''utm_source'', ''utm_medium'', ''utm_campaign'', ''utm_term'', ''utm_content'',
               ''gclid'', ''fbclid'']"

definition canonicalize :: "urllib \<Rightarrow> string \<Rightarrow> error + string" where
  "canonicalize lib url =
     (case urlparse lib (py_strip url) of
        Inl err \<Rightarrow> Inl err
      | Inr p \<Rightarrow>
          let q = filter (\<lambda>(k, v). k \<notin> set TRACKERS) (parse_qsl lib (pr_query p));
              q = sort q
          in Inr (urlunparse lib
                    (py_lower (pr_scheme p),
                     py_lower (case pr_hostname p of None \<Rightarrow> [] | Some h \<Rightarrow> h),
                     (if pr_path p = [] then ''/'' else pr_path p),
                     [],
                     urlencode lib q,
                     [])))"

text \<open>\<^verbatim>\<open>sid\<close>: the SHA-1 hex digest (a parameter) of the canonical URL.\<close>

definition sid :: "urllib \<Rightarrow> (string \<Rightarrow> string) \<Rightarrow> string \<Rightarrow> error + string" where
  "sid lib sha1 u = (case canonicalize lib u of Inl err \<Rightarrow> Inl err | Inr c \<Rightarrow> Inr (sha1 c))"

text \<open>\<^verbatim>\<open>pairs = [(d.url, sid(d.url)) for d in discovered]\<close>; the first exception ends it.\<close>

fun make_pairs :: "urllib \<Rightarrow> (string \<Rightarrow> string) \<Rightarrow> discovery_item list \<Rightarrow> error + (string \<times> string) list" where
  "make_pairs lib sha1 [] = Inr []"
| "make_pairs lib sha1 (d # ds) =
     (case sid lib sha1 (d_url d) of
        Inl err \<Rightarrow> Inl err
      | Inr s \<Rightarrow> (case make_pairs lib sha1 ds of
                    Inl err \<Rightarrow> Inl err
                  | Inr ps \<Rightarrow> Inr ((d_url d, s) # ps)))"

text \<open>\<^verbatim>\<open>discovered_by_url = {d.url: d for d in discovered}\<close>.\<close>

definition make_discovered_by_url :: "discovery_item list \<Rightarrow> (string \<times> discovery_item) list" where
  "make_discovered_by_url discovered = fold (\<lambda>d m. AList.update (d_url d) d m) discovered []"

definition make_frontier :: "corpus \<Rightarrow> (string \<times> string) list \<Rightarrow> (string \<times> string) list" where
  "make_frontier c pairs = filter (\<lambda>(u, s). \<not> has_doc c s) pairs"

section \<open>Concurrent processing\<close>

text \<open>
  \<^verbatim>\<open>run_scrapy_spider\<close> lives in a module that is not among the sources: it is a parameter.
  It receives the batch and the settings, may change the manifest and the corpus, and
  either raises or returns a dict of counts.
\<close>

record spider_args =
  sa_urls :: "string list"
  sa_params :: builder_params
  sa_discovered_by_url :: "(string \<times> discovery_item) list"
  sa_concurrent_requests :: pyval
  sa_download_delay :: pyval
  sa_force_refresh :: bool
  sa_url_timeout :: int

type_synonym spider =
  "spider_args \<Rightarrow> manifest \<Rightarrow> corpus \<Rightarrow> (error + (string \<times> int) list) \<times> manifest \<times> corpus"

text \<open>Numbers as Python orders them; \<^verbatim>\<open>min\<close> and \<^verbatim>\<open>max\<close> of two arguments keep the first on a tie.\<close>

fun num_of :: "pyval \<Rightarrow> rat option" where
  "num_of (PInt i) = Some (of_int i)"
| "num_of (PFloat r) = Some r"
| "num_of (PBool b) = Some (if b then 1 else 0)"
| "num_of _ = None"

definition py_min2 :: "pyval \<Rightarrow> pyval \<Rightarrow> error + pyval" where
  "py_min2 a b =
     (case (num_of a, num_of b) of
        (Some x, Some y) \<Rightarrow> Inr (if y < x then b else a)
      | _ \<Rightarrow> Inl (TypeError ''< not supported between instances''))"

definition py_max2 :: "pyval \<Rightarrow> pyval \<Rightarrow> error + pyval" where
  "py_max2 a b =
     (case (num_of a, num_of b) of
        (Some x, Some y) \<Rightarrow> Inr (if y > x then b else a)
      | _ \<Rightarrow> Inl (TypeError ''> not supported between instances''))"

definition batch_size :: nat where
  "batch_size = 3"

definition total_batches :: "string list \<Rightarrow> nat" where
  "total_batches urls = (length urls + batch_size - 1) div batch_size"

text \<open>\<^verbatim>\<open>urls[start_idx:end_idx]\<close> of batch \<open>batch_num\<close>.\<close>

definition batch_urls :: "string list \<Rightarrow> nat \<Rightarrow> string list" where
  "batch_urls urls batch_num =
     (let start_idx = batch_num * batch_size;
          end_idx = min (start_idx + batch_size) (length urls)
      in drop start_idx (take end_idx urls))"

definition batches :: "string list \<Rightarrow> string list list" where
  "batches urls = map (batch_urls urls) [0 ..< total_batches urls]"

definition initial_total_result :: "(string \<times> int) list" where
  "initial_total_result =
     [(''processed_count'', 0), (''added_count'', 0), (''failed_count'', 0),
      (''skipped_quality'', 0), (''skipped_text_extraction'', 0)]"

text \<open>\<^verbatim>\<open>for key in total_result: total_result[key] += result.get(key, 0)\<close>.\<close>

definition accumulate :: "(string \<times> int) list \<Rightarrow> (string \<times> int) list \<Rightarrow> (string \<times> int) list" where
  "accumulate tot result =
     map (\<lambda>(k, v). (k, v + (case map_of result k of None \<Rightarrow> 0 | Some w \<Rightarrow> w))) tot"

text \<open>The loop over the batches; an exception of the spider leaves the loop.\<close>

fun run_batches ::
  "spider \<Rightarrow> (string list \<Rightarrow> spider_args) \<Rightarrow> string list list \<Rightarrow> (string \<times> int) list
     \<Rightarrow> manifest \<Rightarrow> corpus \<Rightarrow> (error + (string \<times> int) list) \<times> manifest \<times> corpus" where
  "run_batches sp args [] tot mf c = (Inr tot, mf, c)"
| "run_batches sp args (b # bs) tot mf c =
     (case sp (args b) mf c of
        (Inl err, mf1, c1) \<Rightarrow> (Inl err, mf1, c1)
      | (Inr result, mf1, c1) \<Rightarrow> run_batches sp args bs (accumulate tot result) mf1 c1)"

text \<open>\<^verbatim>\<open>result[key]\<close>: a missing key raises \<^verbatim>\<open>KeyError\<close>.\<close>

definition dict_index :: "(string \<times> 'v) list \<Rightarrow> string \<Rightarrow> error + 'v" where
  "dict_index d k = (case map_of d k of None \<Rightarrow> Inl (KeyError k) | Some v \<Rightarrow> Inr v)"

datatype run_output =
    SequentialResult run_result
  | ConcurrentResult "(string \<times> int) list"


text \<open>
  The body of the \<^verbatim>\<open>try\<close> block of \<^verbatim>\<open>_process_concurrent\<close>: the batches, then the history
  record, whose dict literal reads \<^verbatim>\<open>result["added"]\<close>, \<^verbatim>\<open>result["skipped_quality"]\<close>,
  \<^verbatim>\<open>result["skipped_text_extraction"]\<close> and \<^verbatim>\<open>result["failed"]\<close> in this order.
\<close>

definition concurrent_try ::
  "spider \<Rightarrow> (string \<times> string) list \<Rightarrow> (string \<times> discovery_item) list \<Rightarrow> builder_params
     \<Rightarrow> manifest \<Rightarrow> bool \<Rightarrow> pyval \<Rightarrow> pyval \<Rightarrow> corpus
     \<Rightarrow> (error + (string \<times> int) list) \<times> manifest \<times> corpus" where
  "concurrent_try sp frontier discovered_by_url params mf force_refresh concurrent_requests
       download_delay c =
     (let urls = map fst frontier;
          args = (\<lambda>b. \<lparr>sa_urls = b, sa_params = params,
                        sa_discovered_by_url = discovered_by_url,
                        sa_concurrent_requests = concurrent_requests,
                        sa_download_delay = download_delay,
                        sa_force_refresh = force_refresh,
                        sa_url_timeout = 30\<rparr>)
      in case run_batches sp args (batches urls) initial_total_result mf c of
           (Inl err, mf1, c1) \<Rightarrow> (Inl err, mf1, c1)
         | (Inr result, mf1, c1) \<Rightarrow>
             (case dict_index result ''added'' of
                Inl err \<Rightarrow> (Inl err, mf1, c1)
              | Inr added \<Rightarrow>
             (case dict_index result ''skipped_quality'' of
                Inl err \<Rightarrow> (Inl err, mf1, c1)
              | Inr skipped_quality \<Rightarrow>
             (case dict_index result ''skipped_text_extraction'' of
                Inl err \<Rightarrow> (Inl err, mf1, c1)
              | Inr skipped_text_extraction \<Rightarrow>
             (case dict_index result ''failed'' of
                Inl err \<Rightarrow> (Inl err, mf1, c1)
              | Inr failed \<Rightarrow>
                  let mf2 = mf1\<lparr>mf_history := mf_history mf1 @
                              [\<lparr>h_discovered = int (length discovered_by_url),
                                h_added = added,
                                h_skipped_quality = skipped_quality,
                                h_skipped_text_extraction = skipped_text_extraction,
                                h_skipped_duplicate =
                                  int (length discovered_by_url) - int (length frontier),
                                h_failed = failed,
                                h_date_from = bp_date_from params,
                                h_date_to = bp_date_to params,
                                h_keywords = bp_keywords params,
                                h_processing_mode = Some ''concurrent'',
                                h_concurrent_requests = Some concurrent_requests,
                                h_download_delay = Some download_delay\<rparr>],
                            mf_doc_count :=
                              Some ((case mf_doc_count mf1 of None \<Rightarrow> 0 | Some n \<Rightarrow> n) + added)\<rparr>
                  in (Inr result, mf2, save_manifest mf2 c1))))))"

text \<open>Lines 603 and 604: the two settings, computed before the \<^verbatim>\<open>try\<close> block.\<close>

definition concurrent_settings :: "builder_params \<Rightarrow> error + (pyval \<times> pyval)" where
  "concurrent_settings params =
     (case py_min2 (dict_get_default (extra_or_empty params) ''concurrent_requests'' (PInt 16)) (PInt 1) of
        Inl err \<Rightarrow> Inl err
      | Inr concurrent_requests \<Rightarrow>
          (case py_max2 (dict_get_default (extra_or_empty params) ''download_delay'' (PFloat (1 / 10)))
                       (PFloat 5) of
             Inl err \<Rightarrow> Inl err
           | Inr download_delay \<Rightarrow> Inr (concurrent_requests, download_delay)))"

definition process_concurrent ::
  "env \<Rightarrow> spider \<Rightarrow> (string \<times> string) list \<Rightarrow> (string \<times> discovery_item) list \<Rightarrow> builder_params
     \<Rightarrow> manifest \<Rightarrow> bool \<Rightarrow> corpus \<Rightarrow> error + (run_output \<times> manifest \<times> corpus)" where
  "process_concurrent e sp frontier discovered_by_url params mf force_refresh c =
     (case concurrent_settings params of
        Inl err \<Rightarrow> Inl err
      | Inr (concurrent_requests, download_delay) \<Rightarrow>
          (case concurrent_try sp frontier discovered_by_url params mf force_refresh
                  concurrent_requests download_delay c of
             (Inr result, mf1, c1) \<Rightarrow> Inr (ConcurrentResult result, mf1, c1)
           | (Inl err, mf1, c1) \<Rightarrow>
               (case process_sequential e frontier discovered_by_url params mf1 force_refresh c1 of
                  (r, mf2, c2) \<Rightarrow> Inr (SequentialResult r, mf2, c2))))"

text \<open>
  \<^verbatim>\<open>run\<close> from line 446 on: the items are those that \<^verbatim>\<open>discover\<close> yielded and the
  filters kept.
\<close>

definition run_discovered ::
  "urllib \<Rightarrow> (string \<Rightarrow> string) \<Rightarrow> env \<Rightarrow> spider \<Rightarrow> discovery_item list \<Rightarrow> builder_params
     \<Rightarrow> manifest \<Rightarrow> corpus \<Rightarrow> error + (run_output \<times> manifest \<times> corpus)" where
  "run_discovered lib sha1 e sp discovered params mf c =
     (let discovered_by_url = make_discovered_by_url discovered
      in case make_pairs lib sha1 discovered of
           Inl err \<Rightarrow> Inl err
         | Inr pairs \<Rightarrow>
             let frontier = make_frontier c pairs;
                 use_concurrent = pv_truthy (dict_get_default (extra_or_empty params)
                                    ''use_concurrent_processing'' (PBool True));
                 force_refresh = pv_truthy (dict_get_default (extra_or_empty params)
                                    ''force_refresh_cache'' (PBool False))
             in if use_concurrent then
                  process_concurrent e sp frontier discovered_by_url params mf force_refresh c
                else
                  (case process_sequential e frontier discovered_by_url params mf force_refresh c of
                     (r, mf1, c1) \<Rightarrow> Inr (SequentialResult r, mf1, c1)))"

section \<open>Discovery: retry policy and pagination\<close>

text \<open>The wait chosen by the \<^verbatim>\<open>except\<close> branch of the pagination loop (lines 160 to 181).\<close>

definition retry_wait :: "string \<Rightarrow> nat" where
  "retry_wait error_str =
     (if py_in ''403'' error_str then 60
      else if py_in ''timeout'' (py_lower error_str) \<or> py_in ''read timed out'' (py_lower error_str)
      then 30
      else if py_in ''connection'' (py_lower error_str) \<or> py_in ''network'' (py_lower error_str)
      then 45
      else 15)"

text \<open>
  The discovery service is a parameter: \<^verbatim>\<open>story_list\<close> for the query at hand, called with
  a pagination token on a state of the service, raises or returns a page and the next
  token. The state of the loop records every wait of the rate limiter and every token
  that was sent.
\<close>

type_synonym 'a story_list =
  "'a \<Rightarrow> string option \<Rightarrow> (error + (pydict list \<times> string option)) \<times> 'a"

record fetch_state =
  fs_query_stories :: "pydict list"
  fs_pagination_token :: "string option"
  fs_more_stories :: bool
  fs_api_call_count :: nat
  fs_waits :: "nat list"
  fs_requests :: "string option list"

definition limit_reached :: "int option \<Rightarrow> nat \<Rightarrow> nat \<Rightarrow> bool" where
  "limit_reached max_stories n_all n_query =
     (case max_stories of
        None \<Rightarrow> False
      | Some m \<Rightarrow> m \<noteq> 0 \<and> int n_all + int n_query \<ge> m)"

text \<open>The loop over the stories of one page (lines 143 to 153).\<close>

fun add_page ::
  "string \<Rightarrow> pyval \<Rightarrow> int option \<Rightarrow> nat \<Rightarrow> pydict list \<Rightarrow> pydict list \<Rightarrow> pydict list \<times> bool" where
  "add_page collection_name collection_id max_stories n_all [] query_stories = (query_stories, True)"
| "add_page collection_name collection_id max_stories n_all (story # pages) query_stories =
     (let story_copy = AList.update ''collection_id'' collection_id
                         (AList.update ''collection'' (PStr collection_name) story);
          query_stories1 = query_stories @ [story_copy]
      in if limit_reached max_stories n_all (length query_stories1) then (query_stories1, False)
         else add_page collection_name collection_id max_stories n_all pages query_stories1)"

text \<open>
  The \<^verbatim>\<open>while more_stories\<close> loop (lines 119 to 181). It has no bound on the number of
  retries, so the model takes fuel; \<open>None\<close> is fuel used up before the loop ended.
\<close>

fun fetch_query ::
  "nat \<Rightarrow> 'a story_list \<Rightarrow> string \<Rightarrow> pyval \<Rightarrow> int option \<Rightarrow> nat \<Rightarrow> 'a \<Rightarrow> fetch_state
     \<Rightarrow> (fetch_state \<times> 'a) option" where
  "fetch_query 0 api collection_name collection_id max_stories n_all a st =
     (if fs_more_stories st then None else Some (st, a))"
| "fetch_query (Suc fuel) api collection_name collection_id max_stories n_all a st =
     (if \<not> fs_more_stories st then Some (st, a)
      else
        let st1 = st\<lparr>fs_api_call_count := fs_api_call_count st + 1\<rparr>
        in if limit_reached max_stories n_all (length (fs_query_stories st1)) then
             Some (st1\<lparr>fs_more_stories := False\<rparr>, a)
           else
             (case api a (fs_pagination_token st1) of
                (Inl err, a1) \<Rightarrow>
                  fetch_query fuel api collection_name collection_id max_stories n_all a1
                    (st1\<lparr>fs_requests := fs_requests st1 @ [fs_pagination_token st1],
                         fs_waits := fs_waits st1 @ [retry_wait (str_of_error err)]\<rparr>)
              | (Inr (pages, token), a1) \<Rightarrow>
                  let st2 = st1\<lparr>fs_requests := fs_requests st1 @ [fs_pagination_token st1],
                                fs_pagination_token := token\<rparr>
                  in if pages = [] then
                       fetch_query fuel api collection_name collection_id max_stories n_all a1
                         (st2\<lparr>fs_more_stories := False\<rparr>)
                     else
                       (case add_page collection_name collection_id max_stories n_all pages
                               (fs_query_stories st2) of
                          (query_stories, more_stories) \<Rightarrow>
                            fetch_query fuel api collection_name collection_id max_stories n_all a1
                              (st2\<lparr>fs_query_stories := query_stories,
                                   fs_more_stories := (if more_stories then token \<noteq> None else False)\<rparr>))))"

section \<open>Discovery: ordering of the stories\<close>

text \<open>
  A story is the dict the service returns. Python's \<^verbatim>\<open><\<close> is defined between two
  numbers, two strings, two dates and two lists; any other pair raises \<^verbatim>\<open>TypeError\<close>.
\<close>

fun py_lt :: "pyval \<Rightarrow> pyval \<Rightarrow> error + bool" where
  "py_lt (PStr a) (PStr b) = Inr (a < b)"
| "py_lt (PDate y m d) (PDate y' m' d') = Inr ((y, m, d) < (y', m', d'))"
| "py_lt (PStrList a) (PStrList b) = Inr (a < b)"
| "py_lt a b =
     (case (num_of a, num_of b) of
        (Some x, Some y) \<Rightarrow> Inr (x < y)
      | _ \<Rightarrow> Inl (TypeError ''< not supported between instances''))"

definition get_publish_timestamp :: "pydict \<Rightarrow> pyval" where
  "get_publish_timestamp story =
     (let published_at = dict_get story ''publish_date''
      in if pv_truthy published_at then published_at else PInt 0)"

text \<open>
  \<^verbatim>\<open>list.sort(key=..., reverse=True)\<close>: the list is reversed, sorted stably in ascending
  order of the keys with \<^verbatim>\<open><\<close>, and reversed again. The first comparison that raises
  ends the sort.
\<close>

fun insert_story :: "pydict \<Rightarrow> pydict list \<Rightarrow> error + pydict list" where
  "insert_story x [] = Inr [x]"
| "insert_story x (y # ys) =
     (case py_lt (get_publish_timestamp x) (get_publish_timestamp y) of
        Inl err \<Rightarrow> Inl err
      | Inr True \<Rightarrow> Inr (x # y # ys)
      | Inr False \<Rightarrow> (case insert_story x ys of
                        Inl err \<Rightarrow> Inl err
                      | Inr zs \<Rightarrow> Inr (y # zs)))"

fun sort_ascending :: "pydict list \<Rightarrow> pydict list \<Rightarrow> error + pydict list" where
  "sort_ascending [] acc = Inr acc"
| "sort_ascending (x # xs) acc =
     (case insert_story x acc of
        Inl err \<Rightarrow> Inl err
      | Inr acc1 \<Rightarrow> sort_ascending xs acc1)"

definition sort_stories :: "pydict list \<Rightarrow> error + pydict list" where
  "sort_stories all_stories =
     (case sort_ascending (rev all_stories) [] of
        Inl err \<Rightarrow> Inl err
      | Inr ys \<Rightarrow> Inr (rev ys))"

section \<open>Discovery: query compilation\<close>

text \<open>\<^verbatim>\<open>str.upper()\<close> on code points below 256, as far as it stays below 256.\<close>

definition upper_char :: "char \<Rightarrow> string" where
  "upper_char c =
     (let n = (of_char c :: nat)
      in if (97 \<le> n \<and> n \<le> 122) \<or> (224 \<le> n \<and> n \<le> 254 \<and> n \<noteq> 247)
         then [char_of (n - 32)]
         else if n = 223 then ''SS'' else [c])"

definition py_upper :: "string \<Rightarrow> string" where
  "py_upper s = concat (map upper_char s)"

text \<open>\<^verbatim>\<open>sep.join(xs)\<close>.\<close>

fun py_join :: "string \<Rightarrow> string list \<Rightarrow> string" where
  "py_join sep [] = []"
| "py_join sep [x] = x"
| "py_join sep (x # y # ys) = x @ sep @ py_join sep (y # ys)"

definition startswith :: "string \<Rightarrow> char \<Rightarrow> bool" where
  "startswith t c = (case t of [] \<Rightarrow> False | x # xs \<Rightarrow> x = c)"

definition endswith :: "string \<Rightarrow> char \<Rightarrow> bool" where
  "endswith t c = (case rev t of [] \<Rightarrow> False | x # xs \<Rightarrow> x = c)"

definition quote_term :: "string \<Rightarrow> string" where
  "quote_term term =
     (let t = py_strip term
      in if list_ex (\<lambda>op. py_in op (py_upper t)) ['' OR '', '' AND '', ''('', '')''] then t
         else if (startswith t (CHR 0x22) \<and> endswith t (CHR 0x22))
                 \<or> (startswith t (CHR 0x27) \<and> endswith t (CHR 0x27)) then t
         else [CHR 0x22]
              @ concat (map (\<lambda>c. if c = CHR 0x22 then [CHR 0x5C, CHR 0x22] else [c]) t)
              @ [CHR 0x22])"

definition or_group :: "string list \<Rightarrow> string" where
  "or_group terms = ''('' @ py_join '' OR '' terms @ '')''"

definition compile_keywords_map_to_query :: "(string \<times> string list) list \<Rightarrow> string" where
  "compile_keywords_map_to_query keywords_by_lang =
     (let groups = concat (map (\<lambda>(lang, words).
                       let terms = map quote_term (filter (\<lambda>w. py_strip w \<noteq> []) words)
                       in if terms \<noteq> [] then [or_group terms] else []) keywords_by_lang)
      in if groups = [] then [] else or_group groups)"

definition prepare_queries :: "builder_params \<Rightarrow> string list" where
  "prepare_queries params =
     (let extra = extra_or_empty params
      in case dict_get extra ''queries'' of
           PStrList (q # qs) \<Rightarrow> filter (\<lambda>q. q \<noteq> []) (map py_strip (q # qs))
         | _ \<Rightarrow>
           (case dict_get extra ''keywords'' of
              PStrDict (kv # kvs) \<Rightarrow> [compile_keywords_map_to_query (kv # kvs)]
            | _ \<Rightarrow>
              (if bp_keywords params \<noteq> [] then
                 let terms = map quote_term (filter (\<lambda>t. py_strip t \<noteq> []) (bp_keywords params))
                 in if terms = [] then [] else [or_group terms]
               else [])))"


section \<open>A model of \<^verbatim>\<open>urllib.parse\<close>\<close>

text \<open>
  Modelled from the Python standard library (CPython 3.11, \<^verbatim>\<open>urllib/parse.py\<close>), which is
  not part of the repository: \<^verbatim>\<open>urlparse\<close>, the \<^verbatim>\<open>hostname\<close> property, \<^verbatim>\<open>parse_qsl\<close>
  with \<^verbatim>\<open>keep_blank_values=True\<close>, \<^verbatim>\<open>urlencode\<close> with \<^verbatim>\<open>doseq=True\<close> on pairs of strings,
  and \<^verbatim>\<open>urlunparse\<close>. Two parts of the library stay outside the model. The validation of
  a bracketed host by the \<^verbatim>\<open>ipaddress\<close> module is the parameter \<open>check_bracketed_host\<close>.
  A percent escape of a byte above 127, which Python decodes as UTF-8, is kept as it is
  written; escapes of ASCII bytes are decoded as Python does.
\<close>

definition is_ascii_alpha :: "char \<Rightarrow> bool" where
  "is_ascii_alpha c = (let n = (of_char c :: nat) in (65 \<le> n \<and> n \<le> 90) \<or> (97 \<le> n \<and> n \<le> 122))"

definition is_ascii_digit :: "char \<Rightarrow> bool" where
  "is_ascii_digit c = (let n = (of_char c :: nat) in 48 \<le> n \<and> n \<le> 57)"

definition scheme_char :: "char \<Rightarrow> bool" where
  "scheme_char c = (is_ascii_alpha c \<or> is_ascii_digit c \<or> c \<in> set ''+-.'')"

definition uses_params :: "string list" where
  "uses_params = [[], ''ftp'', ''hdl'', ''prospero'', ''http'', ''imap'', ''https'', ''shttp'',
                  ''rtsp'', ''rtsps'', ''rtspu'', ''sip'', ''sips'', ''mms'', ''sftp'', ''tel'']"

definition uses_netloc :: "string list" where
  "uses_netloc = [[], ''ftp'', ''http'', ''gopher'', ''nntp'', ''telnet'', ''imap'', ''wais'',
                  ''file'', ''mms'', ''https'', ''shttp'', ''snews'', ''prospero'', ''rtsp'',
                  ''rtsps'', ''rtspu'', ''rsync'', ''svn'', ''svn+ssh'', ''sftp'', ''nfs'', ''git'',
                  ''git+ssh'', ''ws'', ''wss'']"

text \<open>\<^verbatim>\<open>s.partition(c)\<close>: the text before the first \<open>c\<close> and the text after it.\<close>

definition before_char :: "char \<Rightarrow> string \<Rightarrow> string" where
  "before_char c s = takeWhile (\<lambda>x. x \<noteq> c) s"

definition after_char :: "char \<Rightarrow> string \<Rightarrow> string" where
  "after_char c s = tl (dropWhile (\<lambda>x. x \<noteq> c) s)"

definition py_urlsplit ::
  "(string \<Rightarrow> bool) \<Rightarrow> string \<Rightarrow> error + (string \<times> string \<times> string \<times> string \<times> string)" where
  "py_urlsplit check_bracketed_host url0 =
     (let url1 = filter (\<lambda>c. c \<notin> {CHR 0x09, CHR 0x0D, CHR 0x0A})
                   (dropWhile (\<lambda>c. (of_char c :: nat) \<le> 32) url0);
          pre = before_char (CHR '':'') url1;
          has_scheme = (CHR '':'' \<in> set url1 \<and> pre \<noteq> [] \<and> is_ascii_alpha (hd pre)
                          \<and> list_all scheme_char pre);
          scheme = (if has_scheme then py_lower pre else []);
          url2 = (if has_scheme then after_char (CHR '':'') url1 else url1);
          has_netloc = (take 2 url2 = ''//'');
          netloc = (if has_netloc then takeWhile (\<lambda>c. c \<notin> set ''/?#'') (drop 2 url2) else []);
          url3 = (if has_netloc then dropWhile (\<lambda>c. c \<notin> set ''/?#'') (drop 2 url2) else url2);
          url4 = (if CHR ''#'' \<in> set url3 then before_char (CHR ''#'') url3 else url3);
          fragment = (if CHR ''#'' \<in> set url3 then after_char (CHR ''#'') url3 else []);
          url5 = (if CHR ''?'' \<in> set url4 then before_char (CHR ''?'') url4 else url4);
          query = (if CHR ''?'' \<in> set url4 then after_char (CHR ''?'') url4 else [])
      in if has_netloc \<and> ((CHR ''['' \<in> set netloc \<and> CHR '']'' \<notin> set netloc)
                           \<or> (CHR '']'' \<in> set netloc \<and> CHR ''['' \<notin> set netloc))
         then Inl (ValueError ''Invalid IPv6 URL'')
         else if has_netloc \<and> CHR ''['' \<in> set netloc \<and> CHR '']'' \<in> set netloc
                 \<and> \<not> check_bracketed_host (before_char (CHR '']'') (after_char (CHR ''['') netloc))
         then Inl (ValueError ''invalid bracketed host'')
         else Inr (scheme, netloc, url5, query, fragment))"

definition py_hostname :: "string \<Rightarrow> string option" where
  "py_hostname netloc =
     (let hostinfo = rev (takeWhile (\<lambda>c. c \<noteq> CHR ''@'') (rev netloc));
          hostname = (if CHR ''['' \<in> set hostinfo
                      then before_char (CHR '']'') (after_char (CHR ''['') hostinfo)
                      else before_char (CHR '':'') hostinfo)
      in if hostname = [] then None
         else Some (py_lower (before_char (CHR ''%'') hostname)
                    @ dropWhile (\<lambda>c. c \<noteq> CHR ''%'') hostname))"

definition py_urlparse :: "(string \<Rightarrow> bool) \<Rightarrow> string \<Rightarrow> error + parse_result" where
  "py_urlparse check_bracketed_host url =
     (case py_urlsplit check_bracketed_host url of
        Inl err \<Rightarrow> Inl err
      | Inr (scheme, netloc, path, query, fragment) \<Rightarrow>
          let segment = rev (takeWhile (\<lambda>c. c \<noteq> CHR ''/'') (rev path));
              prefix = take (length path - length segment) path;
              split = (scheme \<in> set uses_params \<and> CHR '';'' \<in> set segment)
          in Inr \<lparr>pr_scheme = scheme,
                  pr_netloc = netloc,
                  pr_path = (if split then prefix @ before_char (CHR '';'') segment else path),
                  pr_params = (if split then after_char (CHR '';'') segment else []),
                  pr_query = query,
                  pr_fragment = fragment,
                  pr_hostname = py_hostname netloc\<rparr>)"

definition is_hex :: "char \<Rightarrow> bool" where
  "is_hex c = (c \<in> set ''0123456789ABCDEFabcdef'')"

definition hex_val :: "char \<Rightarrow> nat" where
  "hex_val c =
     (let n = (of_char c :: nat)
      in if n \<le> 57 then n - 48 else if n \<le> 70 then n - 55 else n - 87)"

fun unquote :: "string \<Rightarrow> string" where
  "unquote (c # h1 # h2 # rest) =
     (if c = CHR ''%'' \<and> is_hex h1 \<and> is_hex h2 \<and> 16 * hex_val h1 + hex_val h2 < 128
      then char_of (16 * hex_val h1 + hex_val h2) # unquote rest
      else c # unquote (h1 # h2 # rest))"
| "unquote cs = cs"

definition unquote_plus :: "string \<Rightarrow> string" where
  "unquote_plus s = unquote (map (\<lambda>c. if c = CHR ''+'' then CHR '' '' else c) s)"

text \<open>\<^verbatim>\<open>s.split(c)\<close>.\<close>

fun split_on :: "char \<Rightarrow> string \<Rightarrow> string list" where
  "split_on c [] = [[]]"
| "split_on c (x # xs) =
     (if x = c then [] # split_on c xs
      else (case split_on c xs of
              [] \<Rightarrow> [[x]]
            | y # ys \<Rightarrow> (x # y) # ys))"

definition py_parse_qsl :: "string \<Rightarrow> (string \<times> string) list" where
  "py_parse_qsl qs =
     (if qs = [] then []
      else concat (map (\<lambda>name_value.
                     if name_value = [] then []
                     else [(unquote_plus (before_char (CHR ''='') name_value),
                            unquote_plus (after_char (CHR ''='') name_value))])
                   (split_on (CHR ''&'') qs)))"

definition hex_digit :: "nat \<Rightarrow> char" where
  "hex_digit n = ''0123456789ABCDEF'' ! n"

definition percent_byte :: "nat \<Rightarrow> string" where
  "percent_byte b = [CHR ''%'', hex_digit (b div 16), hex_digit (b mod 16)]"

definition quote_plus_char :: "char \<Rightarrow> string" where
  "quote_plus_char c =
     (let n = (of_char c :: nat)
      in if c = CHR '' '' then ''+''
         else if is_ascii_alpha c \<or> is_ascii_digit c \<or> c \<in> set ''_.-~'' then [c]
         else if n < 128 then percent_byte n
         else percent_byte (192 + n div 64) @ percent_byte (128 + n mod 64))"

definition quote_plus :: "string \<Rightarrow> string" where
  "quote_plus s = concat (map quote_plus_char s)"

definition py_urlencode :: "(string \<times> string) list \<Rightarrow> string" where
  "py_urlencode query = py_join ''&'' (map (\<lambda>(k, v). quote_plus k @ ''='' @ quote_plus v) query)"

definition py_urlunparse ::
  "string \<times> string \<times> string \<times> string \<times> string \<times> string \<Rightarrow> string" where
  "py_urlunparse components =
     (case components of (scheme, netloc, url0, params, query, fragment) \<Rightarrow>
        let url1 = (if params \<noteq> [] then url0 @ '';'' @ params else url0);
            url2 = (if netloc \<noteq> [] \<or> (scheme \<noteq> [] \<and> scheme \<in> set uses_netloc) \<or> take 2 url1 = ''//''
                    then ''//'' @ netloc @ (if url1 \<noteq> [] \<and> take 1 url1 \<noteq> ''/'' then ''/'' @ url1 else url1)
                    else url1);
            url3 = (if scheme \<noteq> [] then scheme @ '':'' @ url2 else url2);
            url4 = (if query \<noteq> [] then url3 @ ''?'' @ query else url3)
        in (if fragment \<noteq> [] then url4 @ ''#'' @ fragment else url4))"

definition py_urllib :: "(string \<Rightarrow> bool) \<Rightarrow> urllib" where
  "py_urllib check_bracketed_host =
     \<lparr>urlparse = py_urlparse check_bracketed_host,
      parse_qsl = py_parse_qsl,
      urlencode = py_urlencode,
      urlunparse = py_urlunparse\<rparr>"


section \<open>Concrete inputs\<close>

text \<open>
  Inputs on which the definitions are evaluated: an environment whose extractor returns
  no text for \<^verbatim>\<open>u0\<close>, 399 characters for \<^verbatim>\<open>u399\<close> and 400 characters for every other URL.
\<close>

definition demo_parsed :: "string option \<Rightarrow> parsed" where
  "demo_parsed t = \<lparr>p_text = t, p_title = Some ''Parsed title'',
                     p_published_at = Some ''2024-02-02'', p_language = None,
                     p_authors = Some []\<rparr>"

definition demo_env :: env where
  "demo_env =
     \<lparr>fetcher_get = (\<lambda>url key force. Inr (''blob'', ''path'', [(''mime'', ''text/html'')])),
      read_blob = (\<lambda>path. Inr ''raw''),
      zstd_decompress = (\<lambda>b. None),
      extract_text = (\<lambda>raw ext url.
         Inr (demo_parsed (if url = ''u0'' then None
                           else if url = ''u399'' then Some (replicate 399 CHR ''a'')
                           else Some (replicate 400 CHR ''a''))))\<rparr>"

definition demo_params :: builder_params where
  "demo_params = \<lparr>bp_date_from = ''2024-01-01'', bp_date_to = ''2024-01-31'',
                  bp_keywords = [''vaccine'', ''mandate''], bp_extra = None\<rparr>"

definition sequential_params :: builder_params where
  "sequential_params = demo_params\<lparr>bp_extra := Some [(''use_concurrent_processing'', PBool False)]\<rparr>"

definition demo_manifest :: manifest where
  "demo_manifest = \<lparr>mf_name = ''corpus'', mf_source = ''mediacloudcorpus'',
                    mf_params = demo_params, mf_history = [], mf_doc_count = None\<rparr>"

definition empty_corpus :: corpus where
  "empty_corpus = \<lparr>written = [], index_log = [], saved_manifest = None\<rparr>"

definition demo_state :: seq_state where
  "demo_state = \<lparr>s_added = 0, s_failed_urls = [], s_skipped_quality = 0,
                 s_skipped_text_extraction = 0, s_corpus = empty_corpus\<rparr>"

definition demo_item :: "string \<Rightarrow> discovery_item" where
  "demo_item u = \<lparr>d_url = u, d_canonical_url = u, d_title = Some ''Discovered title'',
                  d_published_at = Some ''2024-01-01'', d_language = Some ''en'',
                  d_authors = Some [''A. Writer''], d_extra = None\<rparr>"

text \<open>A stand-in for the SHA-1 digest (the identity) and a host check that accepts all.\<close>

definition demo_digest :: "string \<Rightarrow> string" where
  "demo_digest s = s"

definition accept_all :: "string \<Rightarrow> bool" where
  "accept_all h = True"

text \<open>
  Two spiders: one returns its counts for every batch, the other raises on a batch
  that holds \<^verbatim>\<open>u4\<close>.
\<close>

definition counting_spider :: spider where
  "counting_spider a mf c =
     (Inr [(''processed_count'', int (length (sa_urls a))),
           (''added_count'', int (length (sa_urls a))),
           (''failed_count'', 0), (''skipped_quality'', 0), (''skipped_text_extraction'', 0)],
      mf, c)"



text \<open>A discovery service that raises once and then returns its only page.\<close>

definition flaky_api :: "nat story_list" where
  "flaky_api n token =
     (if n = 0 then (Inl (PyException ''HTTPError 403 Forbidden''), Suc n)
      else (Inr ([[(''url'', PStr ''https://x.com/a'')]], None), Suc n))"

definition initial_fetch_state :: fetch_state where
  "initial_fetch_state = \<lparr>fs_query_stories = [], fs_pagination_token = None,
                           fs_more_stories = True, fs_api_call_count = 0,
                           fs_waits = [], fs_requests = []\<rparr>"

definition dated_story :: pydict where
  "dated_story = [(''url'', PStr ''https://x.com/a''), (''publish_date'', PDate 2024 1 1)]"

definition undated_story :: pydict where
  "undated_story = [(''url'', PStr ''https://x.com/b'')]"

definition raw_query_params :: builder_params where
  "raw_query_params = demo_params\<lparr>bp_extra := Some [(''queries'', PStrList ['' climate '', '''']),
       (''keywords'', PStrDict [(''en'', [''wind''])])]\<rparr>"

definition keyword_map_params :: builder_params where
  "keyword_map_params = demo_params\<lparr>bp_extra :=
       Some [(''keywords'', PStrDict [(''en'', [''wind'', ''sun'']), (''fr'', [''vent''])])]\<rparr>"

definition blank_keyword_params :: builder_params where
  "blank_keyword_params = demo_params\<lparr>bp_keywords := [''  '']\<rparr>"

definition no_keyword_params :: builder_params where
  "no_keyword_params = demo_params\<lparr>bp_keywords := []\<rparr>"


section \<open>Verified properties\<close>

subsection \<open>The sequential loop and its quality gate\<close>




text \<open>
  Claim C4. For an item that was fetched and parsed, the gate decides in this order:
  missing or empty text counts as \<^verbatim>\<open>skipped_text_extraction\<close> and nothing else changes
  (no write); text of 1 to 399 characters counts as \<^verbatim>\<open>skipped_quality\<close> and nothing
  else changes; text of 400 characters or more is written, as one document with that
  text under the item's stable id, and counts as \<^verbatim>\<open>added\<close>. So 399 characters are
  rejected and 400 are written.
\<close>

theorem quality_gate:
  assumes "fetch_raw e url stable_id force = Inr (raw, fm, ext)"
    and "parse_text e raw ext url = Inr p"
  shows "(p_text p = None \<or> p_text p = Some [] \<longrightarrow>
            process_item e params mf dbu force (url, stable_id) st
              = st\<lparr>s_skipped_text_extraction := s_skipped_text_extraction st + 1\<rparr>)
       \<and> (\<forall>t. p_text p = Some t \<and> 0 < length t \<and> length t < 400 \<longrightarrow>
            process_item e params mf dbu force (url, stable_id) st
              = st\<lparr>s_skipped_quality := s_skipped_quality st + 1\<rparr>)
       \<and> (\<forall>t. p_text p = Some t \<and> 400 \<le> length t \<longrightarrow>
            (let st' = process_item e params mf dbu force (url, stable_id) st
             in written (s_corpus st') = written (s_corpus st) @
                   [\<lparr>doc_stable_id = stable_id,
                     doc_meta = build_meta params mf dbu url stable_id p,
                     doc_text = t, doc_raw_bytes = raw, doc_raw_ext = ext,
                     doc_fetch_info = fm\<rparr>]
              \<and> s_added st' = s_added st + 1
              \<and> s_skipped_quality st' = s_skipped_quality st
              \<and> s_skipped_text_extraction st' = s_skipped_text_extraction st
              \<and> s_failed_urls st' = s_failed_urls st))"
  using assms
  by (auto simp: process_item_def opt_list_def write_document_def append_index_def Let_def)

lemma demo_fetch:
  "fetch_raw demo_env u s False = Inr (''raw'', [(''mime'', ''text/html'')], ''html'')"
  by (simp add: fetch_raw_def demo_env_def)

lemma demo_parse:
  "parse_text demo_env ''raw'' ''html'' u =
     Inr (demo_parsed (if u = ''u0'' then None
                       else if u = ''u399'' then Some (replicate 399 CHR ''a'')
                       else Some (replicate 400 CHR ''a'')))"
  by (simp add: parse_text_def demo_env_def)

theorem quality_gate_witness:
  "process_item demo_env demo_params demo_manifest [] False (''u0'', ''s0'') demo_state
     = demo_state\<lparr>s_skipped_text_extraction := 1\<rparr>
   \<and> process_item demo_env demo_params demo_manifest [] False (''u399'', ''s1'') demo_state
     = demo_state\<lparr>s_skipped_quality := 1\<rparr>
   \<and> map doc_stable_id (written (s_corpus
        (process_item demo_env demo_params demo_manifest [] False (''u400'', ''s2'') demo_state)))
     = [''s2'']
   \<and> s_added (process_item demo_env demo_params demo_manifest [] False (''u400'', ''s2'')
        demo_state) = 1"
proof -
  note g0 = quality_gate [OF demo_fetch demo_parse, where stable_id = "''s0''"
      and params = demo_params and mf = demo_manifest and dbu = "[]" and st = demo_state]
  note g1 = quality_gate [OF demo_fetch demo_parse, where stable_id = "''s1''"
      and params = demo_params and mf = demo_manifest and dbu = "[]" and st = demo_state]
  note g2 = quality_gate [OF demo_fetch demo_parse, where stable_id = "''s2''"
      and params = demo_params and mf = demo_manifest and dbu = "[]" and st = demo_state]
  have a: "process_item demo_env demo_params demo_manifest [] False (''u0'', ''s0'') demo_state
     = demo_state\<lparr>s_skipped_text_extraction := 1\<rparr>"
    using g0 [of "''u0''"] by (simp add: demo_state_def demo_parsed_def)
  have b: "process_item demo_env demo_params demo_manifest [] False (''u399'', ''s1'') demo_state
     = demo_state\<lparr>s_skipped_quality := 1\<rparr>"
    using g1 [of "''u399''"] by (simp add: demo_state_def demo_parsed_def)
  have c: "map doc_stable_id (written (s_corpus
        (process_item demo_env demo_params demo_manifest [] False (''u400'', ''s2'') demo_state)))
     = [''s2'']
     \<and> s_added (process_item demo_env demo_params demo_manifest [] False (''u400'', ''s2'')
        demo_state) = 1"
    using g2 [of "''u400''"]
    by (simp add: demo_state_def empty_corpus_def demo_parsed_def Let_def)
  show ?thesis using a b c by simp
qed

subsection \<open>Metadata merge\<close>

text \<open>
  Claim C3, as stated, fails for \<^verbatim>\<open>published_at\<close>: the extractor supplies
  \<^verbatim>\<open>2024-02-02\<close>, the discovery item \<^verbatim>\<open>2024-01-01\<close>, and the document gets the discovery
  item's date.
\<close>

theorem published_at_prefers_discovery:
  "str_truthy (p_published_at (demo_parsed None))
   \<and> p_published_at (demo_parsed None) = Some ''2024-02-02''
   \<and> m_published_at (build_meta demo_params demo_manifest [(''u1'', demo_item ''u1'')] ''u1''
        ''s1'' (demo_parsed None)) = Some ''2024-01-01''"
  by (simp add: build_meta_def merge_published_at_def str_or_def demo_parsed_def demo_item_def
      Let_def)

text \<open>
  Claim C3, amended. In the metadata of a written document the extractor's value wins
  for title, language and authors whenever the extractor supplied a non-empty one, and
  the discovery item's value is the fallback. For \<^verbatim>\<open>published_at\<close> the order is the
  reverse: the discovery item's value wins whenever it is non-empty, and the extractor's
  value is the fallback.
\<close>

theorem metadata_merge:
  "(let meta = build_meta params mf dbu url stable_id p;
        item = map_of dbu url;
        item_published_at = (case item of None \<Rightarrow> None | Some d \<Rightarrow> d_published_at d)
    in (str_truthy (p_title p) \<longrightarrow> m_title meta = p_title p)
     \<and> (\<not> str_truthy (p_title p) \<longrightarrow>
           m_title meta = (case item of None \<Rightarrow> None | Some d \<Rightarrow> d_title d))
     \<and> (str_truthy (p_language p) \<longrightarrow> m_language meta = p_language p)
     \<and> (\<not> str_truthy (p_language p) \<longrightarrow>
           m_language meta = (case item of None \<Rightarrow> None | Some d \<Rightarrow> d_language d))
     \<and> (list_truthy (p_authors p) \<longrightarrow> m_authors meta = opt_list (p_authors p))
     \<and> (\<not> list_truthy (p_authors p) \<longrightarrow>
           m_authors meta = (case item of None \<Rightarrow> [] | Some d \<Rightarrow> opt_list (d_authors d)))
     \<and> (str_truthy item_published_at \<longrightarrow> m_published_at meta = item_published_at)
     \<and> (\<not> str_truthy item_published_at \<longrightarrow> m_published_at meta = p_published_at p))"
  by (auto simp: build_meta_def merge_title_def merge_language_def merge_authors_def
      merge_published_at_def str_or_def opt_list_def Let_def split: option.splits)

theorem metadata_merge_witness:
  "(let meta = build_meta demo_params demo_manifest [(''u1'', demo_item ''u1'')] ''u1'' ''s1''
                 (demo_parsed None)
    in m_title meta = Some ''Parsed title''
     \<and> m_language meta = Some ''en''
     \<and> m_authors meta = [''A. Writer'']
     \<and> m_published_at meta = Some ''2024-01-01'')
   \<and> m_published_at (build_meta demo_params demo_manifest [] ''u1'' ''s1'' (demo_parsed None))
       = Some ''2024-02-02''"
  using metadata_merge [of demo_params demo_manifest "[(''u1'', demo_item ''u1'')]" "''u1''"
      "''s1''" "demo_parsed None"]
    metadata_merge [of demo_params demo_manifest "[]" "''u1''" "''s1''" "demo_parsed None"]
  by (simp add: Let_def demo_parsed_def demo_item_def opt_list_def)

subsection \<open>The concurrent path and its fallback\<close>

lemma accumulate_keys: "map fst (accumulate tot result) = map fst tot"
  by (induction tot) (auto simp: accumulate_def)

lemma run_batches_keys:
  "run_batches sp args bs tot mf c = (Inr res, mf1, c1) \<Longrightarrow> map fst res = map fst tot"
proof (induction bs arbitrary: tot mf c)
  case Nil
  then show ?case by simp
next
  case (Cons b bs)
  then show ?case
    by (auto split: prod.splits sum.splits simp: accumulate_keys)
qed

lemma added_not_a_key:
  assumes "map fst res = map fst initial_total_result"
  shows "dict_index res ''added'' = Inl (KeyError ''added'')"
proof -
  have "''added'' \<notin> set (map fst res)"
    using assms by (simp add: initial_total_result_def)
  then have "map_of res ''added'' = None"
    by (simp add: map_of_eq_None_iff)
  then show ?thesis by (simp add: dict_index_def)
qed

text \<open>
  The totals are kept under the keys \<^verbatim>\<open>added_count\<close> and \<^verbatim>\<open>failed_count\<close> and read under
  \<^verbatim>\<open>added\<close> and \<^verbatim>\<open>failed\<close>: whatever the spider does, the \<^verbatim>\<open>try\<close> block ends in an
  exception.
\<close>

lemma concurrent_try_raises:
  "\<exists>err mf1 c1. concurrent_try sp frontier dbu params mf force cr dd c = (Inl err, mf1, c1)"
proof -
  let ?args = "\<lambda>b. \<lparr>sa_urls = b, sa_params = params, sa_discovered_by_url = dbu,
                      sa_concurrent_requests = cr, sa_download_delay = dd,
                      sa_force_refresh = force, sa_url_timeout = 30\<rparr>"
  obtain res mf1 c1 where rb:
    "run_batches sp ?args (batches (map fst frontier)) initial_total_result mf c = (res, mf1, c1)"
    by (cases "run_batches sp ?args (batches (map fst frontier)) initial_total_result mf c") auto
  show ?thesis
  proof (cases res)
    case (Inl err)
    with rb show ?thesis by (simp add: concurrent_try_def)
  next
    case (Inr result)
    with rb have "map fst result = map fst initial_total_result"
      using run_batches_keys by blast
    then have "dict_index result ''added'' = Inl (KeyError ''added'')"
      by (rule added_not_a_key)
    with rb Inr show ?thesis by (simp add: concurrent_try_def)
  qed
qed

lemma process_concurrent_is_sequential:
  assumes "process_concurrent e sp frontier dbu params mf force c = Inr (out, mf2, c2)"
  shows "\<exists>r. out = SequentialResult r"
proof -
  obtain cr dd where s: "concurrent_settings params = Inr (cr, dd)"
    using assms by (auto simp: process_concurrent_def split: sum.splits)
  obtain err mf1 c1 where
    t: "concurrent_try sp frontier dbu params mf force cr dd c = (Inl err, mf1, c1)"
    using concurrent_try_raises by blast
  show ?thesis
    using assms s t by (auto simp: process_concurrent_def split: prod.splits)
qed







subsection \<open>The frontier\<close>

lemma frontier_subset: "set (make_frontier c pairs) = {(u, s) \<in> set pairs. \<not> has_doc c s}"
  by (auto simp: make_frontier_def)

lemma demo_canonical:
  "canonicalize (py_urllib accept_all) ''https://x.com/a'' = Inr ''https://x.com/a''"
  by code_simp

text \<open>
  Claim C1 at a failing input: discovery yields the same URL twice and the corpus is
  empty. The run reports one discovered item and a frontier of two, so
  \<^verbatim>\<open>skipped_duplicate\<close> is \<open>- 1\<close>, and the document is written twice under one id.
\<close>

theorem duplicate_url_miscounted:
  "case run_discovered (py_urllib accept_all) demo_digest demo_env counting_spider
          [demo_item ''https://x.com/a'', demo_item ''https://x.com/a'']
          sequential_params demo_manifest empty_corpus of
     Inr (SequentialResult r, mf, c) \<Rightarrow>
       r_discovered r = 1 \<and> r_skipped_duplicate r = - 1 \<and> r_added r = 2
       \<and> map doc_stable_id (written c) = [''https://x.com/a'', ''https://x.com/a'']
   | _ \<Rightarrow> False"
  by code_simp

subsection \<open>Ordering of the stories\<close>

text \<open>
  Claim C9 at a failing input: one story with a publish date and one without. The key
  of the second is the integer 0, the comparison of a date with an integer raises, and
  no sorted list is handed downstream.
\<close>

theorem mixed_timestamps_raise:
  "sort_stories [dated_story, undated_story]
     = Inl (TypeError ''< not supported between instances'')"
  by code_simp

subsection \<open>Canonical URLs\<close>

lemmas urllib_defs = py_urllib_def py_urlparse_def py_urlsplit_def py_hostname_def
  py_parse_qsl_def py_urlencode_def py_urlunparse_def before_char_def after_char_def
  is_ascii_alpha_def is_ascii_digit_def scheme_char_def uses_params_def uses_netloc_def
  py_lower_def lower_char_def py_strip_def is_space_def canonicalize_def TRACKERS_def

text \<open>
  Claim C5 at a failing input, a URL with an IPv6 host: \<^verbatim>\<open>p.hostname\<close> drops the brackets,
  the canonical form is \<^verbatim>\<open>http://::1/a\<close>, and canonicalizing that form gives a URL
  without host. Canonicalization is not idempotent there.
\<close>

theorem canonicalize_ipv6_not_idempotent:
  assumes "check_bracketed_host ''::1''"
  shows "canonicalize (py_urllib check_bracketed_host) ''http://[::1]/a'' = Inr ''http://::1/a''
       \<and> canonicalize (py_urllib check_bracketed_host) ''http://::1/a'' = Inr ''http:///a''"
  using assms by (simp add: urllib_defs Let_def)

theorem canonicalize_ipv6_not_idempotent_witness:
  "accept_all ''::1''
   \<and> canonicalize (py_urllib accept_all) ''http://[::1]/a'' = Inr ''http://::1/a''
   \<and> canonicalize (py_urllib accept_all) ''http://::1/a'' = Inr ''http:///a''"
proof -
  have h: "accept_all ''::1''" by (simp add: accept_all_def)
  show ?thesis using h canonicalize_ipv6_not_idempotent [of accept_all] by simp
qed

subsection \<open>Retry policy of the discovery loop\<close>

text \<open>
  Claim C6. The wait after an error of the discovery call depends on the text of the
  error alone, first match first: 60 seconds when it contains \<^verbatim>\<open>403\<close>; else 30 when its
  lower-case form contains \<^verbatim>\<open>timeout\<close> or \<^verbatim>\<open>read timed out\<close>; else 45 when it contains
  \<^verbatim>\<open>connection\<close> or \<^verbatim>\<open>network\<close>; else 15. After the wait the loop goes on with the
  stories collected so far and the same pagination token, so that the next call asks
  for the same page.
\<close>

theorem retry_policy:
  "(py_in ''403'' s \<longrightarrow> retry_wait s = 60)
   \<and> (\<not> py_in ''403'' s
        \<and> (py_in ''timeout'' (py_lower s) \<or> py_in ''read timed out'' (py_lower s))
        \<longrightarrow> retry_wait s = 30)
   \<and> (\<not> py_in ''403'' s
        \<and> \<not> py_in ''timeout'' (py_lower s) \<and> \<not> py_in ''read timed out'' (py_lower s)
        \<and> (py_in ''connection'' (py_lower s) \<or> py_in ''network'' (py_lower s))
        \<longrightarrow> retry_wait s = 45)
   \<and> (\<not> py_in ''403'' s
        \<and> \<not> py_in ''timeout'' (py_lower s) \<and> \<not> py_in ''read timed out'' (py_lower s)
        \<and> \<not> py_in ''connection'' (py_lower s) \<and> \<not> py_in ''network'' (py_lower s)
        \<longrightarrow> retry_wait s = 15)
   \<and> (fs_more_stories st
        \<and> \<not> limit_reached max_stories n_all (length (fs_query_stories st))
        \<and> api a (fs_pagination_token st) = (Inl err, a1)
        \<longrightarrow> fetch_query (Suc fuel) api collection_name collection_id max_stories n_all a st
            = fetch_query fuel api collection_name collection_id max_stories n_all a1
                (st\<lparr>fs_api_call_count := fs_api_call_count st + 1,
                    fs_requests := fs_requests st @ [fs_pagination_token st],
                    fs_waits := fs_waits st @ [retry_wait (str_of_error err)]\<rparr>))"
  by (simp add: retry_wait_def Let_def)

theorem retry_policy_witness:
  "retry_wait ''HTTPError 403 Forbidden'' = 60
   \<and> retry_wait ''Read Timed Out'' = 30
   \<and> retry_wait ''Connection reset by peer'' = 45
   \<and> retry_wait ''boom'' = 15
   \<and> fetch_query 3 flaky_api ''news'' (PInt 7) None 0 0 initial_fetch_state
      = Some (\<lparr>fs_query_stories = [[(''url'', PStr ''https://x.com/a''),
                                    (''collection'', PStr ''news''),
                                    (''collection_id'', PInt 7)]],
               fs_pagination_token = None, fs_more_stories = False, fs_api_call_count = 2,
               fs_waits = [60], fs_requests = [None, None]\<rparr>, 2)"
proof -
  have w: "py_in ''403'' ''HTTPError 403 Forbidden''" by code_simp
  have t: "\<not> py_in ''403'' ''Read Timed Out''
           \<and> py_in ''read timed out'' (py_lower ''Read Timed Out'')" by code_simp
  have c: "\<not> py_in ''403'' ''Connection reset by peer''
           \<and> \<not> py_in ''timeout'' (py_lower ''Connection reset by peer'')
           \<and> \<not> py_in ''read timed out'' (py_lower ''Connection reset by peer'')
           \<and> py_in ''connection'' (py_lower ''Connection reset by peer'')" by code_simp
  have o: "\<not> py_in ''403'' ''boom''
           \<and> \<not> py_in ''timeout'' (py_lower ''boom'')
           \<and> \<not> py_in ''read timed out'' (py_lower ''boom'')
           \<and> \<not> py_in ''connection'' (py_lower ''boom'')
           \<and> \<not> py_in ''network'' (py_lower ''boom'')" by code_simp
  have a1: "retry_wait ''HTTPError 403 Forbidden'' = 60"
    using w retry_policy [THEN conjunct1, of "''HTTPError 403 Forbidden''"] by blast
  have a2: "retry_wait ''Read Timed Out'' = 30"
    using t retry_policy [THEN conjunct2, THEN conjunct1, of "''Read Timed Out''"] by blast
  have a3: "retry_wait ''Connection reset by peer'' = 45"
    using c retry_policy [THEN conjunct2, THEN conjunct2, THEN conjunct1,
        of "''Connection reset by peer''"] by blast
  have a4: "retry_wait ''boom'' = 15"
    using o retry_policy [THEN conjunct2, THEN conjunct2, THEN conjunct2, THEN conjunct1,
        of "''boom''"] by blast
  have s0: "fs_more_stories initial_fetch_state
            \<and> \<not> limit_reached None 0 (length (fs_query_stories initial_fetch_state))
            \<and> flaky_api 0 (fs_pagination_token initial_fetch_state)
                = (Inl (PyException ''HTTPError 403 Forbidden''), 1)"
    by (simp add: initial_fetch_state_def limit_reached_def flaky_api_def)
  have step: "fetch_query (Suc 2) flaky_api ''news'' (PInt 7) None 0 0 initial_fetch_state
      = fetch_query 2 flaky_api ''news'' (PInt 7) None 0 1
          (initial_fetch_state\<lparr>fs_api_call_count := fs_api_call_count initial_fetch_state + 1,
             fs_requests := fs_requests initial_fetch_state
                              @ [fs_pagination_token initial_fetch_state],
             fs_waits := fs_waits initial_fetch_state
                           @ [retry_wait (str_of_error (PyException ''HTTPError 403 Forbidden''))]\<rparr>)"
    using s0 retry_policy [THEN conjunct2, THEN conjunct2, THEN conjunct2, THEN conjunct2,
        of initial_fetch_state None 0 flaky_api 0 "PyException ''HTTPError 403 Forbidden''" 1 2
        "''news''" "PInt 7"]
    by blast
  have rest: "fetch_query 2 flaky_api ''news'' (PInt 7) None 0 1
          (initial_fetch_state\<lparr>fs_api_call_count := fs_api_call_count initial_fetch_state + 1,
             fs_requests := fs_requests initial_fetch_state
                              @ [fs_pagination_token initial_fetch_state],
             fs_waits := fs_waits initial_fetch_state
                           @ [retry_wait (str_of_error (PyException ''HTTPError 403 Forbidden''))]\<rparr>)
      = Some (\<lparr>fs_query_stories = [[(''url'', PStr ''https://x.com/a''),
                                    (''collection'', PStr ''news''),
                                    (''collection_id'', PInt 7)]],
               fs_pagination_token = None, fs_more_stories = False, fs_api_call_count = 2,
               fs_waits = [60], fs_requests = [None, None]\<rparr>, 2)"
    by (simp add: numeral_2_eq_2 initial_fetch_state_def limit_reached_def flaky_api_def Let_def
        a1)
  have e3: "(3::nat) = Suc 2" by simp
  have f: "fetch_query 3 flaky_api ''news'' (PInt 7) None 0 0 initial_fetch_state
      = Some (\<lparr>fs_query_stories = [[(''url'', PStr ''https://x.com/a''),
                                    (''collection'', PStr ''news''),
                                    (''collection_id'', PInt 7)]],
               fs_pagination_token = None, fs_more_stories = False, fs_api_call_count = 2,
               fs_waits = [60], fs_requests = [None, None]\<rparr>, 2)"
    unfolding e3 step by (rule rest)
  show ?thesis using a1 a2 a3 a4 f by blast
qed

subsection \<open>Settings and batches of concurrent mode\<close>









subsection \<open>Query compilation\<close>

lemma startswith_mem: "startswith t c \<Longrightarrow> c \<in> set t"
  by (cases t) (auto simp: startswith_def)

lemma escape_none:
  "CHR 0x22 \<notin> set t \<Longrightarrow>
   concat (map (\<lambda>c. if c = CHR 0x22 then [CHR 0x5C, CHR 0x22] else [c]) t) = t"
  by (induction t) auto

text \<open>
  Claim C8, as stated, fails for the raw queries: they are not used as they are. The
  list \<^verbatim>\<open>[" climate ", ""]\<close> yields the single query \<^verbatim>\<open>climate\<close>.
\<close>

theorem raw_queries_are_stripped:
  "dict_get (extra_or_empty raw_query_params) ''queries'' = PStrList ['' climate '', []]
   \<and> prepare_queries raw_query_params = [''climate'']"
  by code_simp

text \<open>
  Claim C8, amended. The first match wins. A non-empty list \<^verbatim>\<open>extra['queries']\<close> yields
  its entries stripped of surrounding whitespace, blank entries dropped, with no quoting.
  Else a non-empty mapping \<^verbatim>\<open>extra['keywords']\<close> yields one query: the quoted non-blank
  terms of each language are joined by \<^verbatim>\<open>OR\<close> in a parenthesised group, and the groups
  that have a term are joined by \<^verbatim>\<open>OR\<close> in an outer group (the empty query when no group
  has a term). Else the flat keyword list yields one parenthesised \<^verbatim>\<open>OR\<close> group of its
  quoted non-blank terms, and no query when it has no non-blank term. A term without
  operator, parenthesis or quote is quoted by stripping it and putting it between
  double quotes.
\<close>

theorem query_compilation:
  "(let extra = extra_or_empty params;
        quoted = (\<lambda>ws. map quote_term (filter (\<lambda>w. py_strip w \<noteq> []) ws))
    in (\<forall>qs. dict_get extra ''queries'' = PStrList qs \<and> qs \<noteq> [] \<longrightarrow>
          prepare_queries params = filter (\<lambda>q. q \<noteq> []) (map py_strip qs))
     \<and> (\<forall>kw. (\<forall>qs. dict_get extra ''queries'' = PStrList qs \<longrightarrow> qs = [])
            \<and> dict_get extra ''keywords'' = PStrDict kw \<and> kw \<noteq> [] \<longrightarrow>
          prepare_queries params = [compile_keywords_map_to_query kw]
        \<and> compile_keywords_map_to_query kw =
            (let groups = map (\<lambda>(lang, ws). or_group (quoted ws))
                            (filter (\<lambda>(lang, ws). quoted ws \<noteq> []) kw)
             in if groups = [] then [] else or_group groups))
     \<and> ((\<forall>qs. dict_get extra ''queries'' = PStrList qs \<longrightarrow> qs = [])
        \<and> (\<forall>kw. dict_get extra ''keywords'' = PStrDict kw \<longrightarrow> kw = []) \<longrightarrow>
          prepare_queries params =
            (if quoted (bp_keywords params) = [] then []
             else [''('' @ py_join '' OR '' (quoted (bp_keywords params)) @ '')'']))
     \<and> (\<forall>t. \<not> list_ex (\<lambda>op. py_in op (py_upper (py_strip t))) ['' OR '', '' AND '', ''('', '')'']
            \<and> CHR 0x22 \<notin> set (py_strip t)
            \<and> \<not> (startswith (py_strip t) (CHR 0x27) \<and> endswith (py_strip t) (CHR 0x27)) \<longrightarrow>
          quote_term t = [CHR 0x22] @ py_strip t @ [CHR 0x22]))"
proof -
  let ?extra = "extra_or_empty params"
  let ?quoted = "\<lambda>ws. map quote_term (filter (\<lambda>w. py_strip w \<noteq> []) ws)"
  have a: "\<forall>qs. dict_get ?extra ''queries'' = PStrList qs \<and> qs \<noteq> [] \<longrightarrow>
          prepare_queries params = filter (\<lambda>q. q \<noteq> []) (map py_strip qs)"
    by (auto simp: prepare_queries_def Let_def split: list.splits)
  have groups: "concat (map (\<lambda>(lang, words).
                       let terms = map quote_term (filter (\<lambda>w. py_strip w \<noteq> []) words)
                       in if terms \<noteq> [] then [or_group terms] else []) kw)
             = map (\<lambda>(lang, ws). or_group (?quoted ws))
                   (filter (\<lambda>(lang, ws). ?quoted ws \<noteq> []) kw)"
    for kw :: "(string \<times> string list) list"
    by (induction kw) (auto simp: Let_def)
  have b: "\<forall>kw. (\<forall>qs. dict_get ?extra ''queries'' = PStrList qs \<longrightarrow> qs = [])
            \<and> dict_get ?extra ''keywords'' = PStrDict kw \<and> kw \<noteq> [] \<longrightarrow>
          prepare_queries params = [compile_keywords_map_to_query kw]
        \<and> compile_keywords_map_to_query kw =
            (let groups = map (\<lambda>(lang, ws). or_group (?quoted ws))
                            (filter (\<lambda>(lang, ws). ?quoted ws \<noteq> []) kw)
             in if groups = [] then [] else or_group groups)"
  proof (intro allI impI conjI)
    fix kw
    assume h: "(\<forall>qs. dict_get ?extra ''queries'' = PStrList qs \<longrightarrow> qs = [])
            \<and> dict_get ?extra ''keywords'' = PStrDict kw \<and> kw \<noteq> []"
    then show "prepare_queries params = [compile_keywords_map_to_query kw]"
      by (auto simp: prepare_queries_def Let_def split: pyval.splits list.splits)
    show "compile_keywords_map_to_query kw =
            (let groups = map (\<lambda>(lang, ws). or_group (?quoted ws))
                            (filter (\<lambda>(lang, ws). ?quoted ws \<noteq> []) kw)
             in if groups = [] then [] else or_group groups)"
      unfolding compile_keywords_map_to_query_def groups by (simp add: Let_def)
  qed
  have c: "(\<forall>qs. dict_get ?extra ''queries'' = PStrList qs \<longrightarrow> qs = [])
        \<and> (\<forall>kw. dict_get ?extra ''keywords'' = PStrDict kw \<longrightarrow> kw = []) \<longrightarrow>
          prepare_queries params =
            (if ?quoted (bp_keywords params) = [] then []
             else [''('' @ py_join '' OR '' (?quoted (bp_keywords params)) @ '')''])"
    by (auto simp: prepare_queries_def or_group_def Let_def split: pyval.splits list.splits)
  have d: "\<forall>t. \<not> list_ex (\<lambda>op. py_in op (py_upper (py_strip t))) ['' OR '', '' AND '', ''('', '')'']
            \<and> CHR 0x22 \<notin> set (py_strip t)
            \<and> \<not> (startswith (py_strip t) (CHR 0x27) \<and> endswith (py_strip t) (CHR 0x27)) \<longrightarrow>
          quote_term t = [CHR 0x22] @ py_strip t @ [CHR 0x22]"
  proof (intro allI impI)
    fix t
    assume h: "\<not> list_ex (\<lambda>op. py_in op (py_upper (py_strip t))) ['' OR '', '' AND '', ''('', '')'']
            \<and> CHR 0x22 \<notin> set (py_strip t)
            \<and> \<not> (startswith (py_strip t) (CHR 0x27) \<and> endswith (py_strip t) (CHR 0x27))"
    then have nq: "\<not> startswith (py_strip t) (CHR 0x22)"
      using startswith_mem by blast
    show "quote_term t = [CHR 0x22] @ py_strip t @ [CHR 0x22]"
      using h nq escape_none [of "py_strip t"] by (simp add: quote_term_def Let_def)
  qed
  show ?thesis
    unfolding Let_def using a b c d by (simp only: Let_def)
qed

theorem query_compilation_witness:
  "prepare_queries raw_query_params = [''climate'']
   \<and> prepare_queries keyword_map_params = [compile_keywords_map_to_query
        [(''en'', [''wind'', ''sun'']), (''fr'', [''vent''])]]
   \<and> prepare_queries demo_params = [''('' @ [CHR 0x22] @ ''vaccine'' @ [CHR 0x22] @ '' OR ''
                                      @ [CHR 0x22] @ ''mandate'' @ [CHR 0x22] @ '')'']
   \<and> prepare_queries blank_keyword_params = []
   \<and> prepare_queries no_keyword_params = []
   \<and> quote_term '' vaccine '' = [CHR 0x22] @ ''vaccine'' @ [CHR 0x22]"
proof -
  have q1: "dict_get (extra_or_empty raw_query_params) ''queries'' = PStrList ['' climate '', []]"
    by code_simp
  have s1: "filter (\<lambda>q. q \<noteq> []) (map py_strip ['' climate '', []]) = [''climate'']"
    by code_simp
  have r1: "prepare_queries raw_query_params = [''climate'']"
    using query_compilation [of raw_query_params] q1 s1 by (simp add: Let_def)
  have q2: "dict_get (extra_or_empty keyword_map_params) ''queries'' = PNone
            \<and> dict_get (extra_or_empty keyword_map_params) ''keywords''
                = PStrDict [(''en'', [''wind'', ''sun'']), (''fr'', [''vent''])]"
    by code_simp
  have r2: "prepare_queries keyword_map_params = [compile_keywords_map_to_query
        [(''en'', [''wind'', ''sun'']), (''fr'', [''vent''])]]"
    using query_compilation [of keyword_map_params] q2 by (simp add: Let_def)
  have q3: "dict_get (extra_or_empty demo_params) ''queries'' = PNone
            \<and> dict_get (extra_or_empty demo_params) ''keywords'' = PNone
            \<and> map quote_term (filter (\<lambda>w. py_strip w \<noteq> []) (bp_keywords demo_params))
                = [[CHR 0x22] @ ''vaccine'' @ [CHR 0x22], [CHR 0x22] @ ''mandate'' @ [CHR 0x22]]"
    by code_simp
  have r3: "prepare_queries demo_params = [''('' @ [CHR 0x22] @ ''vaccine'' @ [CHR 0x22] @ '' OR ''
                                      @ [CHR 0x22] @ ''mandate'' @ [CHR 0x22] @ '')'']"
    using query_compilation [of demo_params] q3 by (simp add: Let_def)
  have q4: "dict_get (extra_or_empty blank_keyword_params) ''queries'' = PNone
            \<and> dict_get (extra_or_empty blank_keyword_params) ''keywords'' = PNone
            \<and> map quote_term (filter (\<lambda>w. py_strip w \<noteq> []) (bp_keywords blank_keyword_params))
                = []"
    by code_simp
  have r4: "prepare_queries blank_keyword_params = []"
    using query_compilation [of blank_keyword_params] q4 by (simp add: Let_def)
  have q5: "dict_get (extra_or_empty no_keyword_params) ''queries'' = PNone
            \<and> dict_get (extra_or_empty no_keyword_params) ''keywords'' = PNone
            \<and> bp_keywords no_keyword_params = []"
    by code_simp
  have r5: "prepare_queries no_keyword_params = []"
    using query_compilation [of no_keyword_params] q5 by (simp add: Let_def)
  have q6: "\<not> list_ex (\<lambda>op. py_in op (py_upper (py_strip '' vaccine '')))
                 ['' OR '', '' AND '', ''('', '')'']
            \<and> CHR 0x22 \<notin> set (py_strip '' vaccine '')
            \<and> \<not> (startswith (py_strip '' vaccine '') (CHR 0x27)
                  \<and> endswith (py_strip '' vaccine '') (CHR 0x27))
            \<and> py_strip '' vaccine '' = ''vaccine''"
    by code_simp
  have r6': "quote_term '' vaccine '' = [CHR 0x22] @ py_strip '' vaccine '' @ [CHR 0x22]"
    using q6 query_compilation [of demo_params, unfolded Let_def, THEN conjunct2,
        THEN conjunct2, THEN conjunct2, rule_format, of "'' vaccine ''"]
    by blast
  have r6: "quote_term '' vaccine '' = [CHR 0x22] @ ''vaccine'' @ [CHR 0x22]"
    using r6' q6 by simp
  show ?thesis using r1 r2 r3 r4 r5 r6 by blast
qed

subsection \<open>What holds of the frontier and of canonical URLs\<close>

text \<open>
  The dict of discovered items has one entry per distinct URL, whatever the number of
  discovered items.
\<close>

lemma fold_update_keys:
  "distinct (map fst acc) \<Longrightarrow>
   distinct (map fst (fold (\<lambda>d m. AList.update (d_url d) d m) ds acc))
   \<and> fst ` set (fold (\<lambda>d m. AList.update (d_url d) d m) ds acc)
       = fst ` set acc \<union> d_url ` set ds"
proof (induction ds arbitrary: acc)
  case Nil
  then show ?case by simp
next
  case (Cons d ds)
  have "distinct (map fst (AList.update (d_url d) d acc))"
    using Cons.prems by (simp add: distinct_update)
  from Cons.IH [OF this] show ?case
    by (auto simp: dom_update)
qed

lemma length_discovered_by_url:
  "length (make_discovered_by_url discovered) = card (d_url ` set discovered)"
proof -
  let ?m = "make_discovered_by_url discovered"
  have d: "distinct (map fst ?m)" and s: "fst ` set ?m = d_url ` set discovered"
    using fold_update_keys [of "[]" discovered] by (simp_all add: make_discovered_by_url_def)
  have "card (set (map fst ?m)) = length (map fst ?m)"
    using d by (rule distinct_card)
  then show ?thesis using s by simp
qed

text \<open>
  The sequential loop writes documents for ids of the frontier only, and no id of the
  frontier was in the corpus when the run started.
\<close>

lemma process_item_written:
  "set (map doc_stable_id (written (s_corpus (process_item e params mf dbu force us st))))
     \<subseteq> set (map doc_stable_id (written (s_corpus st))) \<union> {snd us}"
  by (cases us)
    (auto simp: process_item_def write_document_def append_index_def Let_def
      split: sum.splits prod.splits)

lemma fold_process_item_written:
  "set (map doc_stable_id
      (written (s_corpus (fold (process_item e params mf dbu force) frontier st))))
     \<subseteq> set (map doc_stable_id (written (s_corpus st))) \<union> snd ` set frontier"
proof (induction frontier arbitrary: st)
  case Nil
  show ?case by simp
next
  case (Cons us frontier)
  show ?case
    using Cons.IH [of "process_item e params mf dbu force us st"]
      process_item_written [of e params mf dbu force us st]
    by auto
qed

lemma sequential_writes_frontier_only:
  assumes "process_sequential e (make_frontier c pairs) dbu params mf force c = (r, mf2, c2)"
    and "doc_id \<in> set (map doc_stable_id (written c2))"
    and "\<not> has_doc c doc_id"
  shows "doc_id \<in> snd ` set (make_frontier c pairs)"
proof -
  let ?st0 = "\<lparr>s_added = 0, s_failed_urls = [], s_skipped_quality = 0,
               s_skipped_text_extraction = 0, s_corpus = c\<rparr>"
  have "written c2
          = written (s_corpus (fold (process_item e params mf dbu force)
                                 (make_frontier c pairs) ?st0))"
    using assms(1) by (auto simp: process_sequential_def save_manifest_def Let_def)
  then have "doc_id \<in> set (map doc_stable_id (written c)) \<union> snd ` set (make_frontier c pairs)"
    using assms(2) fold_process_item_written [of e params mf dbu force "make_frontier c pairs" ?st0]
    by auto
  then show ?thesis using assms(3) by (auto simp: has_doc_def)
qed

lemma frontier_not_in_corpus:
  "(u, s) \<in> set (make_frontier c pairs) \<Longrightarrow> \<not> has_doc c s"
  by (simp add: make_frontier_def)

text \<open>
  Canonicalization removes the tracking parameters and no other, and the order of the
  parameters in the query does not matter: two URLs that parse to the same scheme, host
  and path and to the same parameters in any order have one canonical form.
\<close>

lemma kept_parameters:
  "set (sort (filter (\<lambda>(k, v). k \<notin> set TRACKERS) q)) = {(k, v) \<in> set q. k \<notin> set TRACKERS}"
  by auto

lemma sort_filter_mset:
  fixes xs ys :: "(string \<times> string) list"
  assumes "mset xs = mset ys"
  shows "sort (filter P xs) = sort (filter P ys)"
proof -
  have "mset (sort (filter P ys)) = mset (filter P xs)"
    using assms by (metis mset_filter mset_sort)
  then show ?thesis
    by (metis properties_for_sort sorted_sort)
qed

lemma canonicalize_order_insensitive:
  assumes "urlparse lib (py_strip u1) = Inr p1" and "urlparse lib (py_strip u2) = Inr p2"
    and "pr_scheme p1 = pr_scheme p2" and "pr_hostname p1 = pr_hostname p2"
    and "pr_path p1 = pr_path p2"
    and "mset (parse_qsl lib (pr_query p1)) = mset (parse_qsl lib (pr_query p2))"
  shows "canonicalize lib u1 = canonicalize lib u2"
  using assms sort_filter_mset [OF assms(6), of "\<lambda>(k, v). k \<notin> set TRACKERS"]
  by (simp add: canonicalize_def Let_def)

lemma canonicalize_examples:
  "canonicalize (py_urllib check_bracketed_host) ''https://x.com/a?b=1&utm_source=y''
     = Inr ''https://x.com/a?b=1''
   \<and> canonicalize (py_urllib check_bracketed_host) ''https://x.com/a?utm_source=y&b=1''
     = Inr ''https://x.com/a?b=1''
   \<and> canonicalize (py_urllib check_bracketed_host) ''https://x.com/a?b=1''
     = Inr ''https://x.com/a?b=1''"
  by (simp add: urllib_defs Let_def unquote_plus_def quote_plus_def quote_plus_char_def)

end
